theory Spec2Isabelle
  imports Main
begin

section \<open>Wine prefix management (lutris/util/wine/prefix.py)\<close>

text \<open>
  A shallow embedding of \<^verbatim>\<open>WinePrefixManager\<close>. Every method becomes a function from the
  manager's surroundings (\<open>env\<close>) and the machine state (\<open>state\<close>) to a result and the
  state it leaves behind. A result is \<open>Inr v\<close> for a normal return and \<open>Inl e\<close> for a
  raised exception; the state of a raised call is the state at the moment of the raise.
\<close>

subsection \<open>Strings and paths\<close>

type_synonym path = string

text \<open>\<^verbatim>\<open>str.startswith\<close>.\<close>

definition startswith :: "string \<Rightarrow> string \<Rightarrow> bool" where
  "startswith s p = (take (length p) s = p)"

text \<open>\<^verbatim>\<open>str.endswith\<close>.\<close>

definition endswith :: "string \<Rightarrow> string \<Rightarrow> bool" where
  "endswith s p = (length p \<le> length s \<and> drop (length s - length p) s = p)"

text \<open>\<^verbatim>\<open>str.rfind\<close> for a single character: the highest index of the character, or -1.\<close>

definition rfind :: "string \<Rightarrow> char \<Rightarrow> int" where
  "rfind s c =
     (if c \<in> set s then int (length s) - 1 - int (length (takeWhile (\<lambda>x. x \<noteq> c) (rev s)))
      else - 1)"

text \<open>\<^verbatim>\<open>str.find(c, start)\<close> for a single character: the lowest index at or after
  \<open>start\<close>, or -1.\<close>

definition find_from :: "string \<Rightarrow> char \<Rightarrow> nat \<Rightarrow> int" where
  "find_from s c start =
     (if c \<in> set (drop start s)
      then int start + int (length (takeWhile (\<lambda>x. x \<noteq> c) (drop start s)))
      else - 1)"

text \<open>\<^verbatim>\<open>str.rstrip("/")\<close>.\<close>

definition rstrip_slash :: "string \<Rightarrow> string" where
  "rstrip_slash s = rev (dropWhile (\<lambda>x. x = CHR ''/'') (rev s))"

text \<open>\<^verbatim>\<open>posixpath.join\<close> of two components, and of three as \<^verbatim>\<open>get_user_dir\<close> calls it.\<close>

definition path_join :: "path \<Rightarrow> string \<Rightarrow> path" where
  "path_join a b =
     (if startswith b ''/'' then b
      else if a = [] \<or> endswith a ''/'' then a @ b
      else a @ ''/'' @ b)"

definition path_join3 :: "path \<Rightarrow> string \<Rightarrow> string \<Rightarrow> path" where
  "path_join3 a b c = path_join (path_join a b) c"

subsection \<open>The surroundings of a manager\<close>

text \<open>
  \<open>prefix_path\<close> is \<^verbatim>\<open>self.path\<close>. \<open>env_USER\<close> and \<open>env_HOME\<close> are the two environment
  variables the code reads, \<open>pw_uid_dir\<close> and \<open>pw_name_dir\<close> the password database as
  \<^verbatim>\<open>os.path.expanduser\<close> consults it, and \<open>xdg_entry\<close> is \<^verbatim>\<open>get_xdg_entry\<close>, the
  host's special-folder discovery.
\<close>

record env =
  prefix_path :: path
  env_USER :: "string option"
  env_HOME :: "string option"
  pw_uid_dir :: "string option"
  pw_name_dir :: "string \<Rightarrow> string option"
  xdg_entry :: "string \<Rightarrow> string option"

definition hkcu_prefix :: string where
  "hkcu_prefix = ''HKEY_CURRENT_USER''"

definition hklm_prefix :: string where
  "hklm_prefix = ''HKEY_LOCAL_MACHINE''"

definition DESKTOP_KEYS :: "string list" where
  "DESKTOP_KEYS = [''Desktop'', ''Personal'', ''My Music'', ''My Videos'', ''My Pictures'']"

definition DEFAULT_DESKTOP_FOLDERS :: "string list" where
  "DEFAULT_DESKTOP_FOLDERS = [''Desktop'', ''Documents'', ''Music'', ''Videos'', ''Pictures'']"

definition DESKTOP_XDG :: "string list" where
  "DESKTOP_XDG = [''DESKTOP'', ''DOCUMENTS'', ''MUSIC'', ''VIDEOS'', ''PICTURES'']"

text \<open>\<^verbatim>\<open>default_user or os.getenv("USER") or "lutrisuser"\<close>: an empty string is falsy.\<close>

definition get_user_dir :: "env \<Rightarrow> string option \<Rightarrow> path" where
  "get_user_dir e default_user =
     (let user =
        (case default_user of
           Some u \<Rightarrow> if u \<noteq> [] then u
                     else (case env_USER e of
                             Some v \<Rightarrow> if v \<noteq> [] then v else ''lutrisuser''
                           | None \<Rightarrow> ''lutrisuser'')
         | None \<Rightarrow> (case env_USER e of
                      Some v \<Rightarrow> if v \<noteq> [] then v else ''lutrisuser''
                    | None \<Rightarrow> ''lutrisuser''))
      in path_join3 (prefix_path e) ''drive_c/users/'' user)"

definition user_dir :: "env \<Rightarrow> path" where
  "user_dir e = get_user_dir e None"

text \<open>\<^verbatim>\<open>posixpath.expanduser\<close>.\<close>

definition expanduser :: "env \<Rightarrow> string \<Rightarrow> string" where
  "expanduser e p =
     (if \<not> startswith p ''~'' then p
      else
        let i = (if find_from p CHR ''/'' 1 < 0 then length p
                 else nat (find_from p CHR ''/'' 1));
            userhome =
              (if i = 1
               then (case env_HOME e of Some h \<Rightarrow> Some h | None \<Rightarrow> pw_uid_dir e)
               else pw_name_dir e (take (i - 1) (drop 1 p)))
        in (case userhome of
              None \<Rightarrow> p
            | Some h \<Rightarrow>
                (if rstrip_slash h @ drop i p = [] then ''/''
                 else rstrip_slash h @ drop i p)))"

subsection \<open>Errors\<close>

datatype error =
    ValueError
  | AttributeError
  | IndexError
  | OSError
  | FileExistsError
  | FileNotFoundError
  | NotADirectoryError
  | IsADirectoryError

text \<open>The subclasses of \<^verbatim>\<open>OSError\<close>, for \<^verbatim>\<open>except OSError\<close>.\<close>

definition is_OSError :: "error \<Rightarrow> bool" where
  "is_OSError x =
     (x = OSError \<or> x = FileExistsError \<or> x = FileNotFoundError
      \<or> x = NotADirectoryError \<or> x = IsADirectoryError)"

subsection \<open>The key router\<close>

definition get_registry_path :: "env \<Rightarrow> string \<Rightarrow> error + path" where
  "get_registry_path e key =
     (if startswith key hkcu_prefix then Inr (path_join (prefix_path e) ''user.reg'')
      else if startswith key hklm_prefix then Inr (path_join (prefix_path e) ''system.reg'')
      else Inl ValueError)"

text \<open>The loop over \<^verbatim>\<open>(self.hkcu_prefix, self.hklm_prefix)\<close>; the slice
  \<^verbatim>\<open>key[len(prefix) + 1:]\<close> is \<open>drop\<close>.\<close>

fun get_key_path_loop :: "string list \<Rightarrow> string \<Rightarrow> error + string" where
  "get_key_path_loop [] key = Inl ValueError"
| "get_key_path_loop (p # ps) key =
     (if startswith key p then Inr (drop (length p + 1) key)
      else get_key_path_loop ps key)"

definition get_key_path :: "string \<Rightarrow> error + string" where
  "get_key_path key = get_key_path_loop [hkcu_prefix, hklm_prefix] key"

subsection \<open>The machine state\<close>

text \<open>
  The file system is a store from path strings to nodes. A directory carries its entries
  (its contained data) as a payload that travels with it when it is renamed; the store does
  not relate a path to the entries of the directory above it, and a symbolic link's target
  is read as a path of the store. Path strings are names: two different strings are two
  different objects.
\<close>

datatype node = File string | Symlink path | Dir "(string \<times> node) list"

datatype regval = RInt int | RStr string

type_synonym hive = "string \<times> string \<Rightarrow> regval option"

text \<open>A marker file that exists is either readable with some text, or opening it fails.\<close>

datatype mfile = Content string | Unreadable

datatype level = WARNING | ERROR | EXCEPTION

text \<open>
  Every call that leaves the process is recorded: the file-system calls that mutate, the
  marker writes and removals, the hive reads and writes, and the logger calls (level,
  format string, arguments; the rendering of a caught exception is left out).
\<close>

datatype event =
    Unlink path
  | Rmdir path
  | Rename path path
  | Makedirs path
  | MkSymlink path path
  | WriteAssignment string
  | RemoveAssignment
  | WriteDpi string
  | RemoveDpi
  | RegQuery path string string
  | RegSet path string string regval
  | Log level string "string list"

text \<open>
  \<open>desktop_marker\<close> is the file \<^verbatim>\<open>.lutris_destkop_integration\<close> of the prefix and
  \<open>dpi_marker\<close> the file \<^verbatim>\<open>.lutris_dpi_assignment\<close>; both are regular files kept apart
  from the store of folders, and writing or removing them succeeds. \<open>registry\<close> gives the
  hive held by each registry file.
\<close>

record state =
  fs :: "path \<Rightarrow> node option"
  registry :: "path \<Rightarrow> hive"
  desktop_marker :: "mfile option"
  dpi_marker :: "mfile option"
  trace :: "event list"

type_synonym 'a outcome = "(error + 'a) \<times> state"

definition record_event :: "event \<Rightarrow> state \<Rightarrow> state" where
  "record_event ev s = s\<lparr>trace := trace s @ [ev]\<rparr>"

subsection \<open>The file-system calls\<close>

definition islink :: "state \<Rightarrow> path \<Rightarrow> bool" where
  "islink s p = (case fs s p of Some (Symlink t) \<Rightarrow> True | _ \<Rightarrow> False)"

text \<open>\<^verbatim>\<open>os.stat\<close> follows symbolic links, at most 40 of them.\<close>

fun stat_follow :: "nat \<Rightarrow> (path \<Rightarrow> node option) \<Rightarrow> path \<Rightarrow> node option" where
  "stat_follow 0 f p = None"
| "stat_follow (Suc n) f p =
     (case f p of Some (Symlink t) \<Rightarrow> stat_follow n f t | r \<Rightarrow> r)"

definition is_directory :: "(path \<Rightarrow> node option) \<Rightarrow> path \<Rightarrow> bool" where
  "is_directory f p = (case stat_follow 41 f p of Some (Dir es) \<Rightarrow> True | _ \<Rightarrow> False)"

definition isdir :: "state \<Rightarrow> path \<Rightarrow> bool" where
  "isdir s p = is_directory (fs s) p"

text \<open>Modelled from the spec: \<^verbatim>\<open>system.path_exists\<close> (lutris/util/system.py) is not part of
  the sources; the spec says only that the guest user-profile directory is checked for
  existence, so it is the presence of the path in the store.\<close>

definition path_exists :: "state \<Rightarrow> path \<Rightarrow> bool" where
  "path_exists s p = (fs s p \<noteq> None)"

definition os_unlink :: "path \<Rightarrow> state \<Rightarrow> unit outcome" where
  "os_unlink p s =
     (let s1 = record_event (Unlink p) s in
      case fs s p of
        None \<Rightarrow> (Inl FileNotFoundError, s1)
      | Some (Dir es) \<Rightarrow> (Inl IsADirectoryError, s1)
      | Some n \<Rightarrow> (Inr (), s1\<lparr>fs := (fs s)(p := None)\<rparr>))"

definition os_rmdir :: "path \<Rightarrow> state \<Rightarrow> unit outcome" where
  "os_rmdir p s =
     (let s1 = record_event (Rmdir p) s in
      case fs s p of
        None \<Rightarrow> (Inl FileNotFoundError, s1)
      | Some (Dir es) \<Rightarrow>
          (if es = [] then (Inr (), s1\<lparr>fs := (fs s)(p := None)\<rparr>) else (Inl OSError, s1))
      | Some n \<Rightarrow> (Inl NotADirectoryError, s1))"

text \<open>
  \<^verbatim>\<open>os.rename\<close>: a directory replaces nothing but an empty directory; anything else
  replaces anything but a directory.
\<close>

definition os_rename :: "path \<Rightarrow> path \<Rightarrow> state \<Rightarrow> unit outcome" where
  "os_rename src dst s =
     (let s1 = record_event (Rename src dst) s;
          moved = (\<lambda>n. (Inr (), s1\<lparr>fs := (fs s)(src := None, dst := Some n)\<rparr>))
      in
      case fs s src of
        None \<Rightarrow> (Inl FileNotFoundError, s1)
      | Some n \<Rightarrow>
          (if src = dst then (Inr (), s1)
           else
             (case (n, fs s dst) of
                (_, None) \<Rightarrow> moved n
              | (Dir es, Some (Dir ds)) \<Rightarrow> (if ds = [] then moved n else (Inl OSError, s1))
              | (Dir es, Some d) \<Rightarrow> (Inl NotADirectoryError, s1)
              | (_, Some (Dir ds)) \<Rightarrow> (Inl IsADirectoryError, s1)
              | (_, Some d) \<Rightarrow> moved n)))"

text \<open>\<^verbatim>\<open>os.makedirs(p, exist_ok=True)\<close>: an occupied path is accepted when it is a
  directory (links followed).\<close>

definition os_makedirs :: "path \<Rightarrow> state \<Rightarrow> unit outcome" where
  "os_makedirs p s =
     (let s1 = record_event (Makedirs p) s in
      case fs s p of
        None \<Rightarrow> (Inr (), s1\<lparr>fs := (fs s)(p := Some (Dir []))\<rparr>)
      | Some n \<Rightarrow> (if isdir s p then (Inr (), s1) else (Inl FileExistsError, s1)))"

definition os_symlink :: "path \<Rightarrow> path \<Rightarrow> state \<Rightarrow> unit outcome" where
  "os_symlink src dst s =
     (let s1 = record_event (MkSymlink src dst) s in
      case fs s dst of
        None \<Rightarrow> (Inr (), s1\<lparr>fs := (fs s)(dst := Some (Symlink src))\<rparr>)
      | Some n \<Rightarrow> (Inl FileExistsError, s1))"

subsection \<open>Registry access\<close>

text \<open>Modelled from the spec: the Hive Store (\<^verbatim>\<open>WineRegistry\<close>, lutris/util/wine/registry.py)
  is not part of the sources. After the spec's contract \<^verbatim>\<open>open(path)\<close>,
  \<^verbatim>\<open>query(keyPath, valueName) -> value|None\<close>, \<^verbatim>\<open>setValue(keyPath, valueName, value)\<close>,
  \<^verbatim>\<open>save()\<close>, a hive is a map from key path and value name to a value, a value is an
  integer or a string, and a saved write replaces the hive of the file.\<close>

definition registry_query :: "path \<Rightarrow> string \<Rightarrow> string \<Rightarrow> state \<Rightarrow> regval option \<times> state" where
  "registry_query file kp name s =
     (registry s file (kp, name), record_event (RegQuery file kp name) s)"

text \<open>Modelled from the spec: \<^verbatim>\<open>setValue\<close> followed by \<^verbatim>\<open>save()\<close> of the Hive Store, which
  is not part of the sources.\<close>

definition registry_set_value :: "path \<Rightarrow> string \<Rightarrow> string \<Rightarrow> regval \<Rightarrow> state \<Rightarrow> state" where
  "registry_set_value file kp name v s =
     (record_event (RegSet file kp name v) s)
       \<lparr>registry := (registry s)(file := (registry s file)((kp, name) := Some v))\<rparr>"

definition get_registry_key :: "env \<Rightarrow> string \<Rightarrow> string \<Rightarrow> state \<Rightarrow> (regval option) outcome" where
  "get_registry_key e key subkey s =
     (case get_registry_path e key of
        Inl x \<Rightarrow> (Inl x, s)
      | Inr file \<Rightarrow>
          (case get_key_path key of
             Inl x \<Rightarrow> (Inl x, s)
           | Inr kp \<Rightarrow> (case registry_query file kp subkey s of (v, s1) \<Rightarrow> (Inr v, s1))))"

definition set_registry_key :: "env \<Rightarrow> string \<Rightarrow> string \<Rightarrow> regval \<Rightarrow> state \<Rightarrow> unit outcome" where
  "set_registry_key e key subkey v s =
     (case get_registry_path e key of
        Inl x \<Rightarrow> (Inl x, s)
      | Inr file \<Rightarrow>
          (case get_key_path key of
             Inl x \<Rightarrow> (Inl x, s)
           | Inr kp \<Rightarrow> (Inr (), registry_set_value file kp subkey v s)))"

text \<open>Python's truth value of what a query returns: \<^verbatim>\<open>None\<close>, \<^verbatim>\<open>0\<close> and \<^verbatim>\<open>""\<close> are
  falsy.\<close>

definition truthy :: "regval option \<Rightarrow> bool" where
  "truthy v = (case v of None \<Rightarrow> False | Some (RInt n) \<Rightarrow> n \<noteq> 0 | Some (RStr t) \<Rightarrow> t \<noteq> [])"

subsection \<open>DLL overrides\<close>

text \<open>The format string \<^verbatim>\<open>DLL override '%s' mode is not valid\<close>.\<close>

definition dll_mode_message :: string where
  "dll_mode_message =
     ''DLL override '' @ [CHR 0x27] @ ''%s'' @ [CHR 0x27] @ '' mode is not valid''"

definition override_dll :: "env \<Rightarrow> string \<Rightarrow> string \<Rightarrow> state \<Rightarrow> unit outcome" where
  "override_dll e dll mode s =
     (let key = hkcu_prefix @ ''/Software/Wine/DllOverrides'';
          mode1 = (if startswith mode ''dis'' then [] else mode)
      in
      if mode1 \<notin> set [''builtin'', ''native'', ''builtin,native'', ''native,builtin'', []]
      then (Inr (), record_event (Log ERROR dll_mode_message [mode1]) s)
      else set_registry_key e key dll (RStr mode1) s)"

subsection \<open>Desktop folder names\<close>

definition shell_folders_key :: string where
  "shell_folders_key =
     hkcu_prefix @ ''/Software/Microsoft/Windows/CurrentVersion/Explorer/Shell Folders''"

text \<open>
  The loop of \<^verbatim>\<open>get_desktop_folders\<close>. A falsy value is skipped with a warning; of a
  string the part after its last backslash is kept; a non-zero integer has no
  \<^verbatim>\<open>rfind\<close>, which raises \<^verbatim>\<open>AttributeError\<close>.
\<close>

fun get_desktop_folders_loop ::
  "env \<Rightarrow> string list \<Rightarrow> string list \<Rightarrow> state \<Rightarrow> (string list) outcome" where
  "get_desktop_folders_loop e [] desktop_folders s = (Inr desktop_folders, s)"
| "get_desktop_folders_loop e (key # keys) desktop_folders s =
     (case get_registry_key e shell_folders_key key s of
        (Inl x, s1) \<Rightarrow> (Inl x, s1)
      | (Inr folder, s1) \<Rightarrow>
          (if \<not> truthy folder
           then get_desktop_folders_loop e keys desktop_folders
                  (record_event (Log WARNING ''Couldn't load shell folder name for %s'' [key]) s1)
           else
             (case folder of
                Some (RStr f) \<Rightarrow>
                  get_desktop_folders_loop e keys
                    (desktop_folders @ [drop (nat (rfind f (CHR 0x5C) + 1)) f]) s1
              | _ \<Rightarrow> (Inl AttributeError, s1))))"

definition get_desktop_folders :: "env \<Rightarrow> state \<Rightarrow> (string list) outcome" where
  "get_desktop_folders e s =
     (case get_desktop_folders_loop e DESKTOP_KEYS [] s of
        (Inl x, s1) \<Rightarrow> (Inl x, s1)
      | (Inr desktop_folders, s1) \<Rightarrow>
          (Inr (if desktop_folders \<noteq> [] then desktop_folders else DEFAULT_DESKTOP_FOLDERS), s1))"

subsection \<open>The desktop integration assignment\<close>

definition get_desktop_integration_assignment :: "state \<Rightarrow> string \<times> state" where
  "get_desktop_integration_assignment s =
     (case desktop_marker s of
        None \<Rightarrow> ([], s)
      | Some (Content t) \<Rightarrow> (t, s)
      | Some Unreadable \<Rightarrow>
          ([], record_event
                 (Log EXCEPTION ''Unable to read Lutris desktop integration setting: %s'' []) s))"

definition set_desktop_integration_assignment :: "string \<Rightarrow> state \<Rightarrow> state" where
  "set_desktop_integration_assignment desktop_dir s =
     (if desktop_dir \<noteq> []
      then (record_event (WriteAssignment desktop_dir) s)
             \<lparr>desktop_marker := Some (Content desktop_dir)\<rparr>
      else if desktop_marker s \<noteq> None
      then (record_event RemoveAssignment s)\<lparr>desktop_marker := None\<rparr>
      else s)"

subsection \<open>Removing what occupies a desktop folder\<close>

definition remove_desktop_folder :: "path \<Rightarrow> path \<Rightarrow> state \<Rightarrow> unit outcome" where
  "remove_desktop_folder p safe_path s =
     (if islink s p then os_unlink p s
      else if isdir s p
      then (case os_rmdir p s of
              (Inl x, s1) \<Rightarrow> (if is_OSError x then os_rename p safe_path s1 else (Inl x, s1))
            | (Inr u, s1) \<Rightarrow> (Inr u, s1))
      else (Inr (), s))"

subsection \<open>The three desktop-folder operations\<close>

fun disintegration_loop :: "path \<Rightarrow> string list \<Rightarrow> state \<Rightarrow> unit outcome" where
  "disintegration_loop ud [] s = (Inr (), s)"
| "disintegration_loop ud (item # items) s =
     (let p = path_join ud item;
          safe_path = p @ ''.winecfg''
      in
      if \<not> islink s p then disintegration_loop ud items s
      else
        (case remove_desktop_folder p safe_path s of
           (Inl x, s1) \<Rightarrow> (Inl x, s1)
         | (Inr u, s1) \<Rightarrow>
             (case (if isdir s1 safe_path then os_rename safe_path p s1 else os_makedirs p s1) of
                (Inl x, s2) \<Rightarrow> (Inl x, s2)
              | (Inr v, s2) \<Rightarrow> disintegration_loop ud items s2)))"

definition enable_desktop_disintegration :: "env \<Rightarrow> state \<Rightarrow> unit outcome" where
  "enable_desktop_disintegration e s =
     (let ud = user_dir e in
      if \<not> path_exists s ud then (Inr (), s)
      else
        (case get_desktop_integration_assignment s of
           (a, s0) \<Rightarrow>
             (if a \<noteq> ud
              then (case get_desktop_folders e s0 of
                      (Inl x, s1) \<Rightarrow> (Inl x, s1)
                    | (Inr desktop_folders, s1) \<Rightarrow>
                        (case disintegration_loop ud desktop_folders s1 of
                           (Inl x, s2) \<Rightarrow> (Inl x, s2)
                         | (Inr u, s2) \<Rightarrow> (Inr (), set_desktop_integration_assignment ud s2)))
              else (Inr (), s0))))"

text \<open>
  The loop of \<^verbatim>\<open>enable_desktop_integration_sandbox\<close>. Both arguments of
  \<^verbatim>\<open>os.path.join(desktop_dir, item)\<close> are strings here, so its \<^verbatim>\<open>TypeError\<close> handler
  is never entered.
\<close>

fun sandbox_loop :: "path \<Rightarrow> path \<Rightarrow> string list \<Rightarrow> state \<Rightarrow> unit outcome" where
  "sandbox_loop ud desktop_dir [] s = (Inr (), s)"
| "sandbox_loop ud desktop_dir (item # items) s =
     (let p = path_join ud item;
          safe_path = p @ ''.winecfg''
      in
      case remove_desktop_folder p safe_path s of
        (Inl x, s1) \<Rightarrow> (Inl x, s1)
      | (Inr u, s1) \<Rightarrow>
          (let src_path = path_join desktop_dir item in
           case os_makedirs src_path s1 of
             (Inl x, s2) \<Rightarrow> (Inl x, s2)
           | (Inr v, s2) \<Rightarrow>
               (case os_symlink src_path p s2 of
                  (Inl x, s3) \<Rightarrow> (Inl x, s3)
                | (Inr w, s3) \<Rightarrow> sandbox_loop ud desktop_dir items s3)))"

text \<open>The argument is \<^verbatim>\<open>None\<close> or a string; \<^verbatim>\<open>None\<close> and \<^verbatim>\<open>""\<close> are falsy.\<close>

definition enable_desktop_integration_sandbox :: "env \<Rightarrow> string option \<Rightarrow> state \<Rightarrow> unit outcome" where
  "enable_desktop_integration_sandbox e desktop_dir_arg s =
     (let ud = user_dir e;
          desktop_dir =
            (case desktop_dir_arg of
               None \<Rightarrow> ud
             | Some d \<Rightarrow> if d \<noteq> [] then expanduser e d else ud)
      in
      if desktop_dir = ud then enable_desktop_disintegration e s
      else if \<not> path_exists s ud then (Inr (), s)
      else
        (case get_desktop_integration_assignment s of
           (a, s0) \<Rightarrow>
             (if a \<noteq> desktop_dir
              then (case get_desktop_folders e s0 of
                      (Inl x, s1) \<Rightarrow> (Inl x, s1)
                    | (Inr desktop_folders, s1) \<Rightarrow>
                        (case sandbox_loop ud desktop_dir desktop_folders s1 of
                           (Inl x, s2) \<Rightarrow> (Inl x, s2)
                         | (Inr u, s2) \<Rightarrow>
                             (Inr (), set_desktop_integration_assignment desktop_dir s2)))
              else (Inr (), s0))))"

text \<open>The loop of \<^verbatim>\<open>restore_desktop_integration\<close> over \<^verbatim>\<open>enumerate(desktop_folders)\<close>;
  \<^verbatim>\<open>DESKTOP_XDG[i]\<close> raises \<^verbatim>\<open>IndexError\<close> beyond the list.\<close>

fun restore_loop :: "env \<Rightarrow> path \<Rightarrow> nat \<Rightarrow> string list \<Rightarrow> state \<Rightarrow> unit outcome" where
  "restore_loop e ud i [] s = (Inr (), s)"
| "restore_loop e ud i (item # items) s =
     (let p = path_join ud item;
          safe_path = p @ ''.winecfg''
      in
      case remove_desktop_folder p safe_path s of
        (Inl x, s1) \<Rightarrow> (Inl x, s1)
      | (Inr u, s1) \<Rightarrow>
          (if \<not> i < length DESKTOP_XDG then (Inl IndexError, s1)
           else
             (case xdg_entry e (DESKTOP_XDG ! i) of
                None \<Rightarrow>
                  restore_loop e ud (Suc i) items
                    (record_event
                       (Log ERROR ''No XDG entry found for %s, launcher not created''
                          [DESKTOP_XDG ! i]) s1)
              | Some src_path \<Rightarrow>
                  (if src_path = []
                   then restore_loop e ud (Suc i) items
                          (record_event
                             (Log ERROR ''No XDG entry found for %s, launcher not created''
                                [DESKTOP_XDG ! i]) s1)
                   else
                     (case os_symlink src_path p s1 of
                        (Inl x, s2) \<Rightarrow> (Inl x, s2)
                      | (Inr v, s2) \<Rightarrow> restore_loop e ud (Suc i) items s2)))))"

definition restore_desktop_integration :: "env \<Rightarrow> state \<Rightarrow> unit outcome" where
  "restore_desktop_integration e s =
     (let ud = user_dir e;
          home_dir = expanduser e ''~''
      in
      if \<not> path_exists s ud then (Inr (), s)
      else
        (case get_desktop_integration_assignment s of
           (a, s0) \<Rightarrow>
             (if a \<noteq> home_dir
              then (case get_desktop_folders e s0 of
                      (Inl x, s1) \<Rightarrow> (Inl x, s1)
                    | (Inr desktop_folders, s1) \<Rightarrow>
                        (case restore_loop e ud 0 desktop_folders s1 of
                           (Inl x, s2) \<Rightarrow> (Inl x, s2)
                         | (Inr u, s2) \<Rightarrow>
                             (Inr (), set_desktop_integration_assignment home_dir s2)))
              else (Inr (), s0))))"

subsection \<open>Reading and printing integers\<close>










subsection \<open>The DPI assignment\<close>







section \<open>Notions used to state the properties\<close>

text \<open>The per-user hive file of the prefix.\<close>

definition user_reg :: "env \<Rightarrow> path" where
  "user_reg e = path_join (prefix_path e) ''user.reg''"

text \<open>Two states that differ at most in what was recorded.\<close>

definition same_but_trace :: "state \<Rightarrow> state \<Rightarrow> bool" where
  "same_but_trace s s' =
     (fs s' = fs s \<and> registry s' = registry s \<and> desktop_marker s' = desktop_marker s
      \<and> dpi_marker s' = dpi_marker s)"



subsection \<open>Desktop folder names, read off the hive\<close>

definition shell_folder_value :: "env \<Rightarrow> state \<Rightarrow> string \<Rightarrow> regval option" where
  "shell_folder_value e s key =
     registry s (user_reg e)
       (''Software/Microsoft/Windows/CurrentVersion/Explorer/Shell Folders'', key)"

definition folder_name :: "string \<Rightarrow> string" where
  "folder_name f = drop (nat (rfind f (CHR 0x5C) + 1)) f"

text \<open>The names the hive gives for a list of keys, in the order of the keys; a key whose
  lookup fails contributes nothing.\<close>

definition names_found :: "env \<Rightarrow> state \<Rightarrow> string list \<Rightarrow> string list" where
  "names_found e s keys =
     concat (map (\<lambda>key. case shell_folder_value e s key of
                            Some (RStr f) \<Rightarrow> (if f = [] then [] else [folder_name f])
                          | _ \<Rightarrow> []) keys)"

definition unreadable_name :: "env \<Rightarrow> state \<Rightarrow> string \<Rightarrow> bool" where
  "unreadable_name e s key =
     (case shell_folder_value e s key of Some (RInt n) \<Rightarrow> n \<noteq> 0 | _ \<Rightarrow> False)"

definition desktop_folder_names :: "env \<Rightarrow> state \<Rightarrow> error + string list" where
  "desktop_folder_names e s =
     (if list_ex (unreadable_name e s) DESKTOP_KEYS then Inl AttributeError
      else Inr (if names_found e s DESKTOP_KEYS = [] then DEFAULT_DESKTOP_FOLDERS
                else names_found e s DESKTOP_KEYS))"

subsection \<open>The DPI marker against the hive\<close>




subsection \<open>Restoring a native folder, in the words of the specification\<close>

text \<open>
  What disintegration is specified to do with one guest folder path: a path that is not a
  symbolic link is left untouched; a link is removed and then, if the backup path
  \<^verbatim>\<open><path>.winecfg\<close> is a directory, the backup is renamed into its place, and otherwise
  a fresh empty directory is created.
\<close>

definition restore_native :: "path \<Rightarrow> (path \<Rightarrow> node option) \<Rightarrow> path \<Rightarrow> node option" where
  "restore_native p f =
     (case f p of
        Some (Symlink t) \<Rightarrow>
          (let g = f(p := None); backup = p @ ''.winecfg'' in
           if is_directory g backup then g(backup := None, p := g backup)
           else g(p := Some (Dir [])))
      | _ \<Rightarrow> f)"


subsection \<open>User data\<close>

text \<open>A node holds user data when it is a file or a directory with entries.\<close>

definition has_data :: "node \<Rightarrow> bool" where
  "has_data n = (case n of File c \<Rightarrow> True | Symlink t \<Rightarrow> False | Dir es \<Rightarrow> es \<noteq> [])"

text \<open>
  One store keeps the data of another when every node with data of the first is a node of
  the second, at the same path or at another one, and no two of them at the same path:
  data is moved at most, never dropped and never merged.
\<close>

definition keeps_data :: "(path \<Rightarrow> node option) \<Rightarrow> (path \<Rightarrow> node option) \<Rightarrow> bool" where
  "keeps_data f g = (\<exists>h. inj h \<and> (\<forall>p n. f p = Some n \<and> has_data n \<longrightarrow> g (h p) = Some n))"

subsection \<open>A concrete prefix\<close>

definition example_env :: env where
  "example_env =
     \<lparr>prefix_path = ''/p'', env_USER = Some ''u'', env_HOME = Some ''/home/u'',
      pw_uid_dir = None, pw_name_dir = (\<lambda>n. None), xdg_entry = (\<lambda>n. None)\<rparr>"

text \<open>A state of the prefix \<^verbatim>\<open>/p\<close>: the nodes of the store, the values under the Shell
  Folders key of \<^verbatim>\<open>/p/user.reg\<close>, and the desktop integration marker.\<close>

definition example_state :: "(path \<times> node) list \<Rightarrow> (string \<times> regval) list \<Rightarrow> mfile option \<Rightarrow> state" where
  "example_state nodes shell m =
     \<lparr>fs = map_of nodes,
      registry =
        (\<lambda>file k.
           if file = ''/p/user.reg''
              \<and> fst k = ''Software/Microsoft/Windows/CurrentVersion/Explorer/Shell Folders''
           then map_of shell (snd k) else None),
      desktop_marker = m, dpi_marker = None, trace = []\<rparr>"


text \<open>The prefix \<^verbatim>\<open>/p\<close> sandboxed into \<^verbatim>\<open>/sb\<close>: two folders are links, one of them
  with a backup beside it, and one folder is a real directory.\<close>

definition linked_state :: state where
  "linked_state =
     example_state
       [(''/p/drive_c/users/u'', Dir []),
        (''/p/drive_c/users/u/Desktop'', Symlink ''/sb/Desktop''),
        (''/p/drive_c/users/u/Desktop.winecfg'', Dir [(''save'', File ''x'')]),
        (''/p/drive_c/users/u/Documents'', Symlink ''/sb/Documents''),
        (''/p/drive_c/users/u/Music'', Dir [(''a'', File ''y'')])]
       [] (Some (Content ''/sb''))"

text \<open>The prefix \<^verbatim>\<open>/p\<close> without the directory of user \<^verbatim>\<open>u\<close>: no marker, and a marker
  left by an earlier sandboxing.\<close>

definition fresh_state :: state where
  "fresh_state = example_state [] [] None"






section \<open>Properties\<close>

subsection \<open>Routing and hive access\<close>

lemma startswith_append [simp]: "startswith (p @ r) p"
  by (simp add: startswith_def)

lemma startswith_iff: "startswith t p \<longleftrightarrow> (\<exists>r. t = p @ r)"
  unfolding startswith_def by (metis append_eq_conv_conj)

lemma endswith_append: "endswith (a @ b) b"
  by (simp add: endswith_def)

lemma endswith_path_join: "endswith (path_join a b) b"
  by (simp add: path_join_def endswith_append) (simp add: endswith_def)

lemma hklm_not_hkcu: "startswith key hklm_prefix \<Longrightarrow> \<not> startswith key hkcu_prefix"
  by (auto simp add: startswith_iff hklm_prefix_def hkcu_prefix_def)

lemma hkcu_registry_path: "get_registry_path e (hkcu_prefix @ r) = Inr (user_reg e)"
  by (simp add: get_registry_path_def user_reg_def)

lemma hkcu_key_path: "get_key_path (hkcu_prefix @ CHR ''/'' # r) = Inr r"
  by (simp add: get_key_path_def)

lemma get_registry_key_hkcu:
  "get_registry_key e (hkcu_prefix @ CHR ''/'' # r) subkey s =
     (Inr (registry s (user_reg e) (r, subkey)), record_event (RegQuery (user_reg e) r subkey) s)"
  by (simp add: get_registry_key_def hkcu_registry_path hkcu_key_path registry_query_def)

lemma set_registry_key_hkcu:
  "set_registry_key e (hkcu_prefix @ CHR ''/'' # r) subkey v s =
     (Inr (), registry_set_value (user_reg e) r subkey v s)"
  by (simp add: set_registry_key_def hkcu_registry_path hkcu_key_path)

lemma user_reg_example: "user_reg example_env = ''/p/user.reg''"
  by (simp add: user_reg_def example_env_def path_join_def startswith_def endswith_def)

text \<open>
  Claim C6. A key address that starts with \<^verbatim>\<open>HKEY_CURRENT_USER\<close> is routed to the path
  of the prefix that ends in \<^verbatim>\<open>user.reg\<close>, one that starts with \<^verbatim>\<open>HKEY_LOCAL_MACHINE\<close>
  to the path that ends in \<^verbatim>\<open>system.reg\<close>; for an address that starts with neither,
  \<^verbatim>\<open>get_registry_path\<close> and \<^verbatim>\<open>get_key_path\<close> both raise \<^verbatim>\<open>ValueError\<close>, and the hive
  accessors built on them pass the error on without touching the state.
\<close>

theorem key_router:
  "(startswith key hkcu_prefix \<longrightarrow>
      get_registry_path e key = Inr (path_join (prefix_path e) ''user.reg'')
      \<and> endswith (path_join (prefix_path e) ''user.reg'') ''user.reg'')
   \<and> (startswith key hklm_prefix \<longrightarrow>
      get_registry_path e key = Inr (path_join (prefix_path e) ''system.reg'')
      \<and> endswith (path_join (prefix_path e) ''system.reg'') ''system.reg'')
   \<and> (\<not> startswith key hkcu_prefix \<and> \<not> startswith key hklm_prefix \<longrightarrow>
      get_registry_path e key = Inl ValueError \<and> get_key_path key = Inl ValueError
      \<and> get_registry_key e key subkey s = (Inl ValueError, s)
      \<and> set_registry_key e key subkey v s = (Inl ValueError, s))"
  using hklm_not_hkcu[of key]
  by (auto simp add: get_registry_path_def get_key_path_def endswith_path_join
      get_registry_key_def set_registry_key_def)

theorem key_router_witness:
  "get_registry_path example_env ''HKEY_CURRENT_USER/Software/Wine'' = Inr ''/p/user.reg''
   \<and> get_registry_path example_env ''HKEY_LOCAL_MACHINE/System'' = Inr ''/p/system.reg''
   \<and> get_registry_path example_env ''HKEY_USERS/S-1'' = Inl ValueError
   \<and> get_key_path ''HKEY_USERS/S-1'' = Inl ValueError"
proof -
  have a: "startswith ''HKEY_CURRENT_USER/Software/Wine'' hkcu_prefix"
    by (simp add: startswith_def hkcu_prefix_def)
  have b: "startswith ''HKEY_LOCAL_MACHINE/System'' hklm_prefix"
    by (simp add: startswith_def hklm_prefix_def)
  have c: "\<not> startswith ''HKEY_USERS/S-1'' hkcu_prefix \<and> \<not> startswith ''HKEY_USERS/S-1'' hklm_prefix"
    by (simp add: startswith_def hkcu_prefix_def hklm_prefix_def)
  have p: "path_join (prefix_path example_env) ''user.reg'' = ''/p/user.reg''"
    "path_join (prefix_path example_env) ''system.reg'' = ''/p/system.reg''"
    by (simp_all add: example_env_def path_join_def startswith_def endswith_def)
  show ?thesis
    using a b c
      key_router[of "''HKEY_CURRENT_USER/Software/Wine''" example_env]
      key_router[of "''HKEY_LOCAL_MACHINE/System''" example_env]
      key_router[of "''HKEY_USERS/S-1''" example_env]
    by (simp add: p)
qed

subsection \<open>DLL overrides\<close>

text \<open>
  Claim C7. \<^verbatim>\<open>override_dll\<close> with mode \<^verbatim>\<open>"disabled"\<close> does what it does with mode
  \<^verbatim>\<open>""\<close>, namely write the empty string for the DLL under the overrides key of the user
  hive; for a mode outside the fixed set that does not start with \<^verbatim>\<open>dis\<close> it returns
  normally, having logged one error and changed nothing else: no hive is written.
\<close>

theorem override_dll_modes:
  "override_dll e dll ''disabled'' s = override_dll e dll [] s
   \<and> override_dll e dll [] s =
       (Inr (), registry_set_value (user_reg e) ''Software/Wine/DllOverrides'' dll (RStr []) s)
   \<and> (mode \<notin> set [''builtin'', ''native'', ''builtin,native'', ''native,builtin'', []]
        \<and> \<not> startswith mode ''dis'' \<longrightarrow>
        override_dll e dll mode s =
          (Inr (), s\<lparr>trace := trace s @ [Log ERROR dll_mode_message [mode]]\<rparr>))"
  by (simp add: override_dll_def set_registry_key_hkcu record_event_def)
    (simp add: startswith_def)

theorem override_dll_modes_witness:
  "override_dll example_env ''d3d11'' ''bogus'' (example_state [] [] None) =
     (Inr (), (example_state [] [] None)\<lparr>trace := [Log ERROR dll_mode_message [''bogus'']]\<rparr>)
   \<and> registry (snd (override_dll example_env ''d3d11'' ''bogus'' (example_state [] [] None)))
       = registry (example_state [] [] None)
   \<and> registry (snd (override_dll example_env ''d3d11'' ''disabled'' (example_state [] [] None)))
       ''/p/user.reg'' (''Software/Wine/DllOverrides'', ''d3d11'') = Some (RStr [])"
proof -
  have m: "''bogus'' \<notin> set [''builtin'', ''native'', ''builtin,native'', ''native,builtin'', []]
           \<and> \<not> startswith ''bogus'' ''dis''"
    by (simp add: startswith_def)
  have t: "trace (example_state [] [] None) = []"
    by (simp add: example_state_def)
  show ?thesis
    using m override_dll_modes[of example_env "''d3d11''" "example_state [] [] None" "''bogus''"]
    by (simp add: t registry_set_value_def record_event_def user_reg_example)
qed

subsection \<open>The DPI assignment\<close>











subsection \<open>Reading the desktop folder names\<close>

lemma same_but_trace_refl [simp]: "same_but_trace s s"
  by (simp add: same_but_trace_def)

lemma same_but_trace_record [simp]: "same_but_trace s (record_event ev s') = same_but_trace s s'"
  by (simp add: same_but_trace_def record_event_def)

lemma same_but_trace_record_left [simp]:
  "same_but_trace (record_event ev s) s' = same_but_trace s s'"
  by (simp add: same_but_trace_def record_event_def)

lemma shell_query:
  "get_registry_key e shell_folders_key key s =
     (Inr (shell_folder_value e s key),
      record_event (RegQuery (user_reg e)
        ''Software/Microsoft/Windows/CurrentVersion/Explorer/Shell Folders'' key) s)"
  by (simp add: shell_folders_key_def get_registry_key_hkcu shell_folder_value_def)

lemma shell_folder_value_cong:
  "registry s' = registry s \<Longrightarrow> shell_folder_value e s' = shell_folder_value e s"
  unfolding shell_folder_value_def by (rule ext) simp

lemma names_found_cong:
  "registry s' = registry s \<Longrightarrow> names_found e s' keys = names_found e s keys"
  using shell_folder_value_cong[of s' s e] by (simp add: names_found_def)

lemma unreadable_name_cong:
  "registry s' = registry s \<Longrightarrow> unreadable_name e s' = unreadable_name e s"
  using shell_folder_value_cong[of s' s e] by (intro ext) (simp add: unreadable_name_def)

lemma desktop_folder_names_cong:
  "registry s' = registry s \<Longrightarrow> desktop_folder_names e s' = desktop_folder_names e s"
  using names_found_cong[of s' s e] unreadable_name_cong[of s' s e]
  by (simp add: desktop_folder_names_def)

lemma loop_step:
  "get_desktop_folders_loop e (key # keys) acc s =
     (let q = record_event (RegQuery (user_reg e)
        ''Software/Microsoft/Windows/CurrentVersion/Explorer/Shell Folders'' key) s in
      case shell_folder_value e s key of
        Some (RStr f) \<Rightarrow>
          (if f = []
           then get_desktop_folders_loop e keys acc
                  (record_event (Log WARNING ''Couldn't load shell folder name for %s'' [key]) q)
           else get_desktop_folders_loop e keys (acc @ [folder_name f]) q)
      | Some (RInt n) \<Rightarrow>
          (if n = 0
           then get_desktop_folders_loop e keys acc
                  (record_event (Log WARNING ''Couldn't load shell folder name for %s'' [key]) q)
           else (Inl AttributeError, q))
      | None \<Rightarrow>
          get_desktop_folders_loop e keys acc
            (record_event (Log WARNING ''Couldn't load shell folder name for %s'' [key]) q))"
  by (simp add: shell_query truthy_def folder_name_def split: option.splits regval.splits)

lemma get_desktop_folders_loop_result:
  "fst (get_desktop_folders_loop e keys acc s) =
     (if list_ex (unreadable_name e s) keys then Inl AttributeError
      else Inr (acc @ names_found e s keys))
   \<and> same_but_trace s (snd (get_desktop_folders_loop e keys acc s))"
proof (induction keys arbitrary: acc s)
  case Nil
  show ?case by (simp add: names_found_def)
next
  case (Cons key keys)
  let ?q = "record_event (RegQuery (user_reg e)
        ''Software/Microsoft/Windows/CurrentVersion/Explorer/Shell Folders'' key) s"
  let ?w = "record_event (Log WARNING ''Couldn't load shell folder name for %s'' [key]) ?q"
  have r: "registry ?q = registry s" and rw: "registry ?w = registry s"
    by (simp_all add: record_event_def)
  note cong = unreadable_name_cong[OF r] names_found_cong[OF r]
    unreadable_name_cong[OF rw] names_found_cong[OF rw]
  have nf: "names_found e s (key # keys) =
      (case shell_folder_value e s key of
         Some (RStr f) \<Rightarrow> (if f = [] then [] else [folder_name f])
       | _ \<Rightarrow> []) @ names_found e s keys"
    by (simp add: names_found_def)
  show ?case
    using Cons.IH[of acc ?w] Cons.IH[of _ ?q]
    unfolding loop_step nf
    by (auto simp add: cong unreadable_name_def Let_def split: option.splits regval.splits)
qed

lemma get_desktop_folders_result:
  "fst (get_desktop_folders e s) = desktop_folder_names e s
   \<and> same_but_trace s (snd (get_desktop_folders e s))"
proof (cases "get_desktop_folders_loop e DESKTOP_KEYS [] s")
  case (Pair r s1)
  with get_desktop_folders_loop_result[of e DESKTOP_KEYS "[]" s] show ?thesis
    by (cases r) (auto simp add: get_desktop_folders_def desktop_folder_names_def split: if_splits)
qed

subsection \<open>Paths of the prefix\<close>

lemma user_dir_example: "user_dir example_env = ''/p/drive_c/users/u''"
  by (simp add: user_dir_def get_user_dir_def example_env_def path_join3_def path_join_def
      startswith_def endswith_def)

lemma path_join_nonempty: "b \<noteq> [] \<Longrightarrow> path_join a b \<noteq> []"
  by (simp add: path_join_def)

lemma user_dir_nonempty: "user_dir e \<noteq> []"
  by (simp add: user_dir_def get_user_dir_def path_join3_def path_join_nonempty Let_def
      split: option.splits)

lemma expanduser_nonempty: "d \<noteq> [] \<Longrightarrow> expanduser e d \<noteq> []"
  by (simp add: expanduser_def Let_def split: option.splits)


subsection \<open>The file-system calls\<close>

lemma islink_iff: "islink s p \<longleftrightarrow> (\<exists>t. fs s p = Some (Symlink t))"
  by (simp add: islink_def split: option.splits node.splits)

lemma is_directory_Some: "is_directory f p \<Longrightarrow> \<exists>n. f p = Some n"
  by (cases "f p") (simp_all add: is_directory_def eval_nat_numeral)

lemma is_directory_Dir [simp]: "f p = Some (Dir es) \<Longrightarrow> is_directory f p"
  by (simp add: is_directory_def eval_nat_numeral)

lemma is_directory_File [simp]: "f p = Some (File c) \<Longrightarrow> \<not> is_directory f p"
  by (simp add: is_directory_def eval_nat_numeral)

lemma is_directory_None [simp]: "f p = None \<Longrightarrow> \<not> is_directory f p"
  by (simp add: is_directory_def eval_nat_numeral)

lemma os_unlink_link:
  "fs s p = Some (Symlink t) \<Longrightarrow>
   os_unlink p s = (Inr (), (record_event (Unlink p) s)\<lparr>fs := (fs s)(p := None)\<rparr>)"
  by (simp add: os_unlink_def)

lemma os_rename_free:
  "fs s src = Some n \<Longrightarrow> fs s dst = None \<Longrightarrow> src \<noteq> dst \<Longrightarrow>
   os_rename src dst s =
     (Inr (), (record_event (Rename src dst) s)\<lparr>fs := (fs s)(src := None, dst := Some n)\<rparr>)"
  by (simp add: os_rename_def Let_def split: node.splits)

lemma os_makedirs_free:
  "fs s p = None \<Longrightarrow>
   os_makedirs p s = (Inr (), (record_event (Makedirs p) s)\<lparr>fs := (fs s)(p := Some (Dir []))\<rparr>)"
  by (simp add: os_makedirs_def)

lemma backup_differs [simp]: "p @ ''.winecfg'' \<noteq> p" "p \<noteq> p @ ''.winecfg''"
  by simp_all

lemma remove_desktop_folder_link:
  "fs s p = Some (Symlink t) \<Longrightarrow>
   remove_desktop_folder p b s = (Inr (), (record_event (Unlink p) s)\<lparr>fs := (fs s)(p := None)\<rparr>)"
  by (simp add: remove_desktop_folder_def islink_iff os_unlink_link)

lemma disintegration_loop_result:
  "fst (disintegration_loop ud items s) = Inr ()
   \<and> fs (snd (disintegration_loop ud items s)) = fold restore_native (map (path_join ud) items) (fs s)
   \<and> registry (snd (disintegration_loop ud items s)) = registry s
   \<and> desktop_marker (snd (disintegration_loop ud items s)) = desktop_marker s
   \<and> dpi_marker (snd (disintegration_loop ud items s)) = dpi_marker s"
proof (induction items arbitrary: s)
  case Nil
  show ?case by simp
next
  case (Cons item items)
  let ?p = "path_join ud item"
  let ?b = "?p @ ''.winecfg''"
  show ?case
  proof (cases "islink s ?p")
    case False
    then have "restore_native ?p (fs s) = fs s"
      by (auto simp add: restore_native_def islink_iff split: option.splits node.splits)
    with False Cons.IH[of s] show ?thesis by simp
  next
    case True
    then obtain t where t: "fs s ?p = Some (Symlink t)" by (auto simp add: islink_iff)
    let ?s1 = "(record_event (Unlink ?p) s)\<lparr>fs := (fs s)(?p := None)\<rparr>"
    have rm: "remove_desktop_folder ?p ?b s = (Inr (), ?s1)"
      using t by (rule remove_desktop_folder_link)
    have f1: "fs ?s1 = (fs s)(?p := None)" by simp
    show ?thesis
    proof (cases "isdir ?s1 ?b")
      case d: True
      then obtain n where n: "fs ?s1 ?b = Some n"
        using is_directory_Some[of "fs ?s1" ?b] by (auto simp add: isdir_def)
      let ?s2 = "(record_event (Rename ?b ?p) ?s1)\<lparr>fs := (fs ?s1)(?b := None, ?p := Some n)\<rparr>"
      have mv: "os_rename ?b ?p ?s1 = (Inr (), ?s2)"
        by (rule os_rename_free[OF n]) simp_all
      have sp: "restore_native ?p (fs s) = fs ?s2"
        using t d n by (simp add: restore_native_def isdir_def Let_def)
      have eq: "disintegration_loop ud (item # items) s = disintegration_loop ud items ?s2"
        using True rm d mv by (simp add: Let_def)
      have st: "registry ?s2 = registry s" "desktop_marker ?s2 = desktop_marker s"
        "dpi_marker ?s2 = dpi_marker s"
        by (simp_all add: record_event_def)
      have fd: "fold restore_native (map (path_join ud) (item # items)) (fs s) =
          fold restore_native (map (path_join ud) items) (fs ?s2)"
        using sp by simp
      show ?thesis
        using Cons.IH[of ?s2] unfolding eq fd st by blast
    next
      case d: False
      let ?s2 = "(record_event (Makedirs ?p) ?s1)\<lparr>fs := (fs ?s1)(?p := Some (Dir []))\<rparr>"
      have mk: "os_makedirs ?p ?s1 = (Inr (), ?s2)"
        by (rule os_makedirs_free) simp
      have sp: "restore_native ?p (fs s) = fs ?s2"
        using t d by (simp add: restore_native_def isdir_def Let_def)
      have eq: "disintegration_loop ud (item # items) s = disintegration_loop ud items ?s2"
        using True rm d mk by (simp add: Let_def)
      have st: "registry ?s2 = registry s" "desktop_marker ?s2 = desktop_marker s"
        "dpi_marker ?s2 = dpi_marker s"
        by (simp_all add: record_event_def)
      have fd: "fold restore_native (map (path_join ud) (item # items)) (fs s) =
          fold restore_native (map (path_join ud) items) (fs ?s2)"
        using sp by simp
      show ?thesis
        using Cons.IH[of ?s2] unfolding eq fd st by blast
    qed
  qed
qed


subsection \<open>The assignment marker\<close>

lemma assignment_differs_iff:
  "d \<noteq> [] \<Longrightarrow>
   (fst (get_desktop_integration_assignment s) \<noteq> d) = (desktop_marker s \<noteq> Some (Content d))"
  by (auto simp add: get_desktop_integration_assignment_def split: option.splits mfile.splits)

lemma get_assignment_same: "same_but_trace s (snd (get_desktop_integration_assignment s))"
  by (simp add: get_desktop_integration_assignment_def split: option.splits mfile.splits)


lemma set_assignment_fields:
  "d \<noteq> [] \<Longrightarrow> desktop_marker (set_desktop_integration_assignment d s) = Some (Content d)"
  "fs (set_desktop_integration_assignment d s) = fs s"
  "registry (set_desktop_integration_assignment d s) = registry s"
  "dpi_marker (set_desktop_integration_assignment d s) = dpi_marker s"
  by (simp_all add: set_desktop_integration_assignment_def record_event_def)

text \<open>The state in which the folders are visited: after the marker and the names were read.\<close>

lemma folders_read:
  assumes "desktop_folder_names e s = Inr folders"
  shows "\<exists>s1. get_desktop_folders e (snd (get_desktop_integration_assignment s)) = (Inr folders, s1)
    \<and> same_but_trace s s1"
proof -
  let ?s0 = "snd (get_desktop_integration_assignment s)"
  have a: "same_but_trace s ?s0" by (rule get_assignment_same)
  then have "registry ?s0 = registry s" by (simp add: same_but_trace_def)
  then have "desktop_folder_names e ?s0 = Inr folders"
    using assms desktop_folder_names_cong[of ?s0 s e] by simp
  with get_desktop_folders_result[of e ?s0]
  have "fst (get_desktop_folders e ?s0) = Inr folders"
    and b: "same_but_trace ?s0 (snd (get_desktop_folders e ?s0))" by simp_all
  moreover have "same_but_trace s (snd (get_desktop_folders e ?s0))"
    using a b by (simp add: same_but_trace_def)
  ultimately show ?thesis
    by (intro exI[of _ "snd (get_desktop_folders e ?s0)"]) (simp add: prod_eq_iff)
qed


text \<open>The whole of a disintegration that visits the folders.\<close>

lemma disintegration_effect:
  assumes "path_exists s (user_dir e)"
    and "desktop_marker s \<noteq> Some (Content (user_dir e))"
    and "desktop_folder_names e s = Inr folders"
  shows "fst (enable_desktop_disintegration e s) = Inr ()
    \<and> fs (snd (enable_desktop_disintegration e s)) =
        fold restore_native (map (path_join (user_dir e)) folders) (fs s)
    \<and> desktop_marker (snd (enable_desktop_disintegration e s)) = Some (Content (user_dir e))
    \<and> registry (snd (enable_desktop_disintegration e s)) = registry s
    \<and> dpi_marker (snd (enable_desktop_disintegration e s)) = dpi_marker s"
proof -
  let ?ud = "user_dir e"
  obtain a s0 where g: "get_desktop_integration_assignment s = (a, s0)" by force
  have a: "a \<noteq> ?ud"
    using assms(2) assignment_differs_iff[OF user_dir_nonempty, of s e] g by simp
  from folders_read[OF assms(3)] g obtain s1
    where f: "get_desktop_folders e s0 = (Inr folders, s1)" and s1: "same_but_trace s s1"
    by auto
  obtain r s2 where l: "disintegration_loop ?ud folders s1 = (r, s2)" by force
  from disintegration_loop_result[of ?ud folders s1] l s1
  have r: "r = Inr ()" and s2: "fs s2 = fold restore_native (map (path_join ?ud) folders) (fs s)"
    "registry s2 = registry s" "dpi_marker s2 = dpi_marker s"
    by (simp_all add: same_but_trace_def)
  have "enable_desktop_disintegration e s = (Inr (), set_desktop_integration_assignment ?ud s2)"
    using assms(1) g a f l r by (simp add: enable_desktop_disintegration_def Let_def)
  then show ?thesis
    using s2 by (simp add: set_assignment_fields user_dir_nonempty)
qed

subsection \<open>User data is kept\<close>

lemma keeps_data_in_place:
  "(\<And>p n. f p = Some n \<Longrightarrow> has_data n \<Longrightarrow> g p = Some n) \<Longrightarrow> keeps_data f g"
  unfolding keeps_data_def by (intro exI[of _ id]) simp

lemma keeps_data_refl [simp]: "keeps_data f f"
  by (rule keeps_data_in_place)




















subsection \<open>The concrete prefixes\<close>

lemma fresh_no_user_dir: "\<not> path_exists (example_state [] [] m) (user_dir example_env)"
  by (simp add: path_exists_def example_state_def)







subsection \<open>What removing a desktop folder does\<close>









subsection \<open>A prefix without the user-profile directory\<close>

text \<open>
  Claim C10. When the guest user-profile directory does not exist, each of
  \<^verbatim>\<open>enable_desktop_integration_sandbox\<close>, \<^verbatim>\<open>enable_desktop_disintegration\<close> and
  \<^verbatim>\<open>restore_desktop_integration\<close> returns normally and leaves the state as it was:
  nothing of the store, the hives or the markers changes and nothing is recorded, so no
  file-system call, no hive read or write and no marker write was made.
\<close>

theorem no_user_dir_no_op:
  assumes "\<not> path_exists s (user_dir e)"
  shows "enable_desktop_integration_sandbox e d s = (Inr (), s)
    \<and> enable_desktop_disintegration e s = (Inr (), s)
    \<and> restore_desktop_integration e s = (Inr (), s)"
  using assms
  by (simp add: enable_desktop_integration_sandbox_def enable_desktop_disintegration_def
      restore_desktop_integration_def Let_def)

theorem no_user_dir_no_op_witness:
  "\<not> path_exists fresh_state (user_dir example_env)
   \<and> enable_desktop_integration_sandbox example_env (Some ''/sb'') fresh_state
       = (Inr (), fresh_state)
   \<and> enable_desktop_disintegration example_env fresh_state = (Inr (), fresh_state)
   \<and> restore_desktop_integration example_env fresh_state = (Inr (), fresh_state)"
  using no_user_dir_no_op[of fresh_state example_env "Some ''/sb''"] fresh_no_user_dir[of None]
  by (simp add: fresh_state_def)

subsection \<open>Disintegration\<close>









lemma example_names_default:
  "desktop_folder_names example_env (example_state nodes [] m) = Inr DEFAULT_DESKTOP_FOLDERS"
  by (simp add: desktop_folder_names_def names_found_def unreadable_name_def
      shell_folder_value_def example_state_def DESKTOP_KEYS_def)





subsection \<open>Sandboxing twice\<close>




subsection \<open>When sandboxing is disintegration\<close>

lemma no_links_disintegration_loop:
  "\<forall>p t. fs s p \<noteq> Some (Symlink t) \<Longrightarrow> disintegration_loop ud items s = (Inr (), s)"
  by (induction items) (simp_all add: islink_iff Let_def)

text \<open>
  Claim C8, amended. \<^verbatim>\<open>enable_desktop_integration_sandbox\<close> with a target behaves as
  \<^verbatim>\<open>enable_desktop_disintegration\<close> in every state exactly when the target is \<^verbatim>\<open>None\<close>,
  is the empty string, or is a string whose tilde-expansion is the guest user-profile
  directory.
\<close>

theorem sandbox_degenerates_iff:
  "(\<forall>s. enable_desktop_integration_sandbox e t s = enable_desktop_disintegration e s)
   \<longleftrightarrow> (t = None \<or> t = Some [] \<or> (\<exists>d. t = Some d \<and> expanduser e d = user_dir e))"
proof
  assume "t = None \<or> t = Some [] \<or> (\<exists>d. t = Some d \<and> expanduser e d = user_dir e)"
  then show "\<forall>s. enable_desktop_integration_sandbox e t s = enable_desktop_disintegration e s"
    by (auto simp add: enable_desktop_integration_sandbox_def Let_def split: if_splits)
next
  assume all: "\<forall>s. enable_desktop_integration_sandbox e t s = enable_desktop_disintegration e s"
  show "t = None \<or> t = Some [] \<or> (\<exists>d. t = Some d \<and> expanduser e d = user_dir e)"
  proof (rule ccontr)
    assume n: "\<not> (t = None \<or> t = Some [] \<or> (\<exists>d. t = Some d \<and> expanduser e d = user_dir e))"
    then obtain d where t: "t = Some d" and d: "d \<noteq> []" and x: "expanduser e d \<noteq> user_dir e"
      by (cases t) auto
    let ?ud = "user_dir e"
    let ?dd = "expanduser e d"
    let ?s = "\<lparr>fs = (\<lambda>p. if p = ?ud then Some (Dir []) else None),
               registry = (\<lambda>file k. None), desktop_marker = None, dpi_marker = None,
               trace = []\<rparr>"
    have dd: "?dd \<noteq> []" using d by (rule expanduser_nonempty)
    have pe: "path_exists ?s ?ud" by (simp add: path_exists_def)
    have g: "get_desktop_integration_assignment ?s = ([], ?s)"
      by (simp add: get_desktop_integration_assignment_def)
    have nm: "desktop_folder_names e ?s = Inr DEFAULT_DESKTOP_FOLDERS"
      by (simp add: desktop_folder_names_def names_found_def unreadable_name_def
          shell_folder_value_def DESKTOP_KEYS_def)
    from folders_read[OF nm] g obtain s1
      where f: "get_desktop_folders e ?s = (Inr DEFAULT_DESKTOP_FOLDERS, s1)"
        and s1: "same_but_trace ?s s1" by auto
    have "\<forall>p t. fs s1 p \<noteq> Some (Symlink t)"
      using s1 by (simp add: same_but_trace_def)
    then have l: "disintegration_loop ?ud DEFAULT_DESKTOP_FOLDERS s1 = (Inr (), s1)"
      by (rule no_links_disintegration_loop)
    have dis: "enable_desktop_disintegration e ?s
        = (Inr (), set_desktop_integration_assignment ?ud s1)"
      using pe g f l user_dir_nonempty[of e]
      by (simp add: enable_desktop_disintegration_def Let_def)
    obtain r s2 where sl: "sandbox_loop ?ud ?dd DEFAULT_DESKTOP_FOLDERS s1 = (r, s2)" by force
    have sb: "enable_desktop_integration_sandbox e t ?s =
        (case r of Inl x \<Rightarrow> (Inl x, s2)
         | Inr u \<Rightarrow> (Inr (), set_desktop_integration_assignment ?dd s2))"
      using t d x pe g f sl dd
      by (simp add: enable_desktop_integration_sandbox_def Let_def)
    from all have "enable_desktop_integration_sandbox e t ?s = enable_desktop_disintegration e ?s"
      by blast
    with sb dis have
      "(case r of Inl x \<Rightarrow> (Inl x, s2)
         | Inr u \<Rightarrow> (Inr (), set_desktop_integration_assignment ?dd s2))
       = (Inr (), set_desktop_integration_assignment ?ud s1)" by simp
    then have "desktop_marker (set_desktop_integration_assignment ?dd s2)
        = desktop_marker (set_desktop_integration_assignment ?ud s1)"
      by (cases r) simp_all
    then show False
      using x by (simp add: set_assignment_fields dd user_dir_nonempty)
  qed
qed

text \<open>The claim as first stated names the tilde-expanded target only: the empty target
  expands to itself, not to the user-profile directory, and is disintegration all the
  same.\<close>

theorem sandbox_degenerates_counterexample:
  "expanduser example_env [] \<noteq> user_dir example_env
   \<and> enable_desktop_integration_sandbox example_env (Some []) linked_state
       = enable_desktop_disintegration example_env linked_state
   \<and> desktop_marker (snd (enable_desktop_integration_sandbox example_env (Some []) linked_state))
       = Some (Content (user_dir example_env))"
proof -
  have h1: "path_exists linked_state (user_dir example_env)"
    by (simp add: path_exists_def user_dir_example linked_state_def example_state_def)
  have h2: "desktop_marker linked_state \<noteq> Some (Content (user_dir example_env))"
    by (simp add: user_dir_example linked_state_def example_state_def)
  have h3: "desktop_folder_names example_env linked_state = Inr DEFAULT_DESKTOP_FOLDERS"
    unfolding linked_state_def by (rule example_names_default)
  have e: "enable_desktop_integration_sandbox example_env (Some []) linked_state
       = enable_desktop_disintegration example_env linked_state"
    by (simp add: enable_desktop_integration_sandbox_def)
  have x: "expanduser example_env [] \<noteq> user_dir example_env"
    by (simp add: expanduser_def startswith_def user_dir_example)
  have m: "desktop_marker (snd (enable_desktop_disintegration example_env linked_state))
       = Some (Content (user_dir example_env))"
    using disintegration_effect[OF h1 h2 h3] by blast
  from x e m show ?thesis by simp
qed

subsection \<open>The desktop folder names\<close>





subsection \<open>No user data is deleted\<close>






end
